theory Spec2Isabelle
  imports Complex_Main "HOL-Library.Char_ord" "HOL-Library.List_Lexorder" "HOL-Library.Multiset"
begin

section \<open>JavaScript values as the handlers see them\<close>

text \<open>
  Both entry points of \<^verbatim>\<open>index.js\<close> (the STDIO daemon and the Express server) receive
  loosely typed values: \<^verbatim>\<open>params\<close> is whatever \<^verbatim>\<open>JSON.parse\<close> produced, \<^verbatim>\<open>req.query.limit\<close>
  is whatever the query-string parser produced (absent, a string, an array or an object).
  \<open>jsval\<close> covers them.  \<open>JUndefined\<close> is the value of an absent property.  \<open>JNum\<close> carries
  the integer-valued numbers (below \<open>10^21\<close> in magnitude, where \<^verbatim>\<open>Number::toString\<close> prints
  plain decimal digits); fractional numbers are IEEE doubles and are not modelled.  An
  object is an association list in which the first binding of a key is the property.
  A \<open>char\<close> stands for one code unit below 256.
\<close>

datatype jsval =
    JUndefined
  | JNull
  | JBool bool
  | JNum int
  | JStr string
  | JArr "jsval list"
  | JObj "(string \<times> jsval) list"

text \<open>A thrown JavaScript exception is represented by its \<^verbatim>\<open>message\<close>, the only part of
  it the handlers read.\<close>

type_synonym exn = string

text \<open>Truthiness, as tested by \<^verbatim>\<open>||\<close>, \<^verbatim>\<open>!\<close> and \<^verbatim>\<open>if\<close>.\<close>

fun truthy :: "jsval \<Rightarrow> bool" where
  "truthy JUndefined = False"
| "truthy JNull = False"
| "truthy (JBool b) = b"
| "truthy (JNum n) = (n \<noteq> 0)"
| "truthy (JStr s) = (s \<noteq> [])"
| "truthy (JArr xs) = True"
| "truthy (JObj kvs) = True"

text \<open>Property read \<^verbatim>\<open>v.k\<close> for the keys the handlers read (\<^verbatim>\<open>project_id\<close>,
  \<^verbatim>\<open>table_name\<close>, \<^verbatim>\<open>limit\<close>, \<^verbatim>\<open>page\<close>, \<^verbatim>\<open>table_schema\<close>), none of which a prototype
  defines: reading from \<^verbatim>\<open>null\<close> or \<^verbatim>\<open>undefined\<close> throws a TypeError, reading a key an
  object does not own gives \<^verbatim>\<open>undefined\<close>.\<close>

definition cannot_read :: "string \<Rightarrow> string \<Rightarrow> exn" where
  "cannot_read what k = ''Cannot read properties of '' @ what @ '' (reading '' @ [CHR 0x27] @ k @ [CHR 0x27] @ '')''"

fun get_prop :: "jsval \<Rightarrow> string \<Rightarrow> exn + jsval" where
  "get_prop JUndefined k = Inl (cannot_read ''undefined'' k)"
| "get_prop JNull k = Inl (cannot_read ''null'' k)"
| "get_prop (JObj kvs) k = Inr (case map_of kvs k of None \<Rightarrow> JUndefined | Some v \<Rightarrow> v)"
| "get_prop v k = Inr JUndefined"

subsection \<open>String conversion\<close>

text \<open>Decimal digits of a natural number, most significant first.\<close>

fun dec :: "nat \<Rightarrow> string" where
  "dec n = (if n < 10 then [char_of (48 + n)] else dec (n div 10) @ [char_of (48 + n mod 10)])"

declare dec.simps [simp del]

definition num_str :: "int \<Rightarrow> string" where
  "num_str n = (if n < 0 then CHR ''-'' # dec (nat (- n)) else dec (nat n))"

text \<open>
  \<^verbatim>\<open>ToString\<close>, which \<^verbatim>\<open>parseInt\<close> and every template literal apply to their argument.
  An array is joined with commas, \<^verbatim>\<open>null\<close> and \<^verbatim>\<open>undefined\<close> elements printing as the
  empty string.  A plain object prints as \<^verbatim>\<open>[object Object]\<close> through
  \<^verbatim>\<open>Object.prototype.toString\<close>; when it owns a \<^verbatim>\<open>toString\<close> property (a parsed value,
  never callable) no conversion method is left and a TypeError is thrown: \<open>None\<close>.
\<close>

fun js_ToString :: "jsval \<Rightarrow> string option"
  and js_join :: "jsval list \<Rightarrow> string option" where
  "js_ToString JUndefined = Some ''undefined''"
| "js_ToString JNull = Some ''null''"
| "js_ToString (JBool b) = Some (if b then ''true'' else ''false'')"
| "js_ToString (JNum n) = Some (num_str n)"
| "js_ToString (JStr s) = Some s"
| "js_ToString (JArr xs) = js_join xs"
| "js_ToString (JObj kvs) =
     (if map_of kvs ''toString'' = None then Some ''[object Object]'' else None)"
| "js_join [] = Some []"
| "js_join (x # xs) =
     (case (if x = JUndefined \<or> x = JNull then Some [] else js_ToString x) of
        None \<Rightarrow> None
      | Some s \<Rightarrow>
          (if xs = [] then Some s
           else (case js_join xs of None \<Rightarrow> None | Some r \<Rightarrow> Some (s @ CHR '','' # r))))"

definition not_primitive :: exn where
  "not_primitive = ''Cannot convert object to primitive value''"

text \<open>A template literal \<^verbatim>\<open>`...${v}...`\<close>: the pieces around the converted value.\<close>

definition template :: "string \<Rightarrow> jsval \<Rightarrow> string \<Rightarrow> exn + string" where
  "template pre v post =
     (case js_ToString v of None \<Rightarrow> Inl not_primitive | Some s \<Rightarrow> Inr (pre @ s @ post))"

subsection \<open>\<^verbatim>\<open>parseInt\<close> and the pagination defaults\<close>

text \<open>White space as \<^verbatim>\<open>parseInt\<close> and \<^verbatim>\<open>trim\<close> skip it: TAB, LF, VT, FF, CR, SP, NBSP.\<close>

definition is_ws :: "char \<Rightarrow> bool" where
  "is_ws c = (c \<in> set [CHR 0x09, CHR 0x0A, CHR 0x0B, CHR 0x0C, CHR 0x0D, CHR 0x20, CHR 0xA0])"

definition digit_val :: "char \<Rightarrow> nat" where
  "digit_val c =
     (let k = (of_char c :: nat) in
      if 48 \<le> k \<and> k \<le> 57 then k - 48
      else if 97 \<le> k \<and> k \<le> 122 then k - 87
      else if 65 \<le> k \<and> k \<le> 90 then k - 55
      else 36)"

definition is_digit :: "nat \<Rightarrow> char \<Rightarrow> bool" where
  "is_digit R c = (digit_val c < R)"

definition digits_value :: "nat \<Rightarrow> string \<Rightarrow> nat" where
  "digits_value R Z = foldl (\<lambda>a c. a * R + digit_val c) 0 Z"

text \<open>
  \<^verbatim>\<open>parseInt(string)\<close> with no radix, on the converted string: skip leading white space,
  take a sign, take a \<^verbatim>\<open>0x\<close>/\<^verbatim>\<open>0X\<close> prefix (radix 16, otherwise 10), read the longest run
  of digits; no digit gives \<^verbatim>\<open>NaN\<close> (\<open>None\<close>).  The result is the exact integer (negative
  zero is \<open>0\<close>): the rounding of integers beyond \<open>2^53\<close> to doubles is not modelled.
\<close>

definition parseInt_str :: "string \<Rightarrow> int option" where
  "parseInt_str inputString =
     (let S = dropWhile is_ws inputString;
          sign = (if S \<noteq> [] \<and> hd S = CHR ''-'' then - 1 else (1::int));
          S1 = (if S \<noteq> [] \<and> (hd S = CHR ''+'' \<or> hd S = CHR ''-'') then tl S else S);
          hex = (take 2 S1 = ''0x'' \<or> take 2 S1 = ''0X'');
          R = (if hex then 16 else 10);
          S2 = (if hex then drop 2 S1 else S1);
          Z = takeWhile (is_digit R) S2
      in if Z = [] then None else Some (sign * int (digits_value R Z)))"

definition parseInt :: "jsval \<Rightarrow> exn + int option" where
  "parseInt v =
     (case js_ToString v of None \<Rightarrow> Inl not_primitive | Some s \<Rightarrow> Inr (parseInt_str s))"

text \<open>\<^verbatim>\<open>x || d\<close> on a number: \<^verbatim>\<open>NaN\<close> and zero are falsy, every other number is kept.\<close>

definition or_default :: "int option \<Rightarrow> int \<Rightarrow> int" where
  "or_default x d = (case x of None \<Rightarrow> d | Some n \<Rightarrow> if n = 0 then d else n)"

text \<open>
  Lines 98--100 of the daemon and 301--303 of the server, the same three statements:
  \<^verbatim>\<open>limit = parseInt(raw.limit) || 10; page = parseInt(raw.page) || 0; offset = page * limit\<close>.
  The result is the triple \<open>(limit, page, offset)\<close>; \<open>Inl\<close> is the TypeError of a
  conversion that throws.
\<close>

definition normalize_limit :: "jsval \<Rightarrow> exn + int" where
  "normalize_limit raw = (case parseInt raw of Inl e \<Rightarrow> Inl e | Inr x \<Rightarrow> Inr (or_default x 10))"

definition normalize_page :: "jsval \<Rightarrow> exn + int" where
  "normalize_page raw = (case parseInt raw of Inl e \<Rightarrow> Inl e | Inr x \<Rightarrow> Inr (or_default x 0))"

definition normalize_pagination :: "jsval \<Rightarrow> jsval \<Rightarrow> exn + (int \<times> int \<times> int)" where
  "normalize_pagination rawLimit rawPage =
     (case normalize_limit rawLimit of
        Inl e \<Rightarrow> Inl e
      | Inr l \<Rightarrow>
          (case normalize_page rawPage of
             Inl e \<Rightarrow> Inl e
           | Inr p \<Rightarrow> Inr (l, p, p * l)))"

section \<open>The backing client\<close>

text \<open>
  The handlers build queries with the client's chained calls and await
  \<^verbatim>\<open>{ data, error, count }\<close>.  A query is the record of the calls made on the builder; the
  client itself (\<^verbatim>\<open>@supabase/supabase-js\<close>) is a parameter \<open>query \<Rightarrow> reply\<close>.  A reply is
  either a rejection (the awaited promise throws) or the resolved triple, \<open>error\<close> being the
  message of the error object or \<open>None\<close> for \<^verbatim>\<open>null\<close>.
\<close>

datatype pg_filter = Eq string jsval | Neq string jsval

record query =
  from_table :: jsval
  select_columns :: "string list"
  count_option :: "string option"
  filters :: "pg_filter list"
  order_column :: "string option"
  range_bounds :: "(int \<times> int) option"
  single_row :: bool

datatype reply = Rejected exn | Resolved jsval "string option" "int option"

type_synonym client = "query \<Rightarrow> reply"

text \<open>The three queries the source builds (lines 75--80 and 276--281; 108--113 and
  306--311; 120--123 and 318--321).\<close>

definition tables_query :: query where
  "tables_query =
     \<lparr>from_table = JStr ''information_schema.tables'',
      select_columns = [''table_schema'', ''table_name''],
      count_option = None,
      filters = [Eq ''table_schema'' (JStr ''public''),
                 Neq ''table_name'' (JStr ''pg_stat_statements'')],
      order_column = Some ''table_name'',
      range_bounds = None,
      single_row = False\<rparr>"

definition exists_query :: "jsval \<Rightarrow> query" where
  "exists_query table_name =
     \<lparr>from_table = JStr ''information_schema.tables'',
      select_columns = [''table_name''],
      count_option = None,
      filters = [Eq ''table_schema'' (JStr ''public''), Eq ''table_name'' table_name],
      order_column = None,
      range_bounds = None,
      single_row = True\<rparr>"

definition data_query :: "jsval \<Rightarrow> int \<Rightarrow> int \<Rightarrow> query" where
  "data_query table_name off lmt =
     \<lparr>from_table = table_name,
      select_columns = [''*''],
      count_option = Some ''exact'',
      filters = [],
      order_column = None,
      range_bounds = Some (off, off + lmt - 1),
      single_row = False\<rparr>"

section \<open>Results shared by the two transports\<close>

record table_ref =
  schema :: jsval
  name :: jsval

record pagination =
  total :: "int option"
  page :: int
  limit :: int
  pages :: int

record page_result =
  rows :: jsval
  pagination :: pagination

text \<open>\<^verbatim>\<open>data.map(table => ({ schema: table.table_schema, name: table.table_name }))\<close>:
  a TypeError when \<^verbatim>\<open>data\<close> is not an array or an element is \<^verbatim>\<open>null\<close>.\<close>

fun map_tables :: "jsval list \<Rightarrow> exn + table_ref list" where
  "map_tables [] = Inr []"
| "map_tables (t # ts) =
     (case get_prop t ''table_schema'' of
        Inl e \<Rightarrow> Inl e
      | Inr s \<Rightarrow>
          (case get_prop t ''table_name'' of
             Inl e \<Rightarrow> Inl e
           | Inr n \<Rightarrow>
               (case map_tables ts of
                  Inl e \<Rightarrow> Inl e
                | Inr rest \<Rightarrow> Inr (\<lparr>schema = s, name = n\<rparr> # rest))))"

fun data_map :: "jsval \<Rightarrow> exn + table_ref list" where
  "data_map (JArr ts) = map_tables ts"
| "data_map JNull = Inl (cannot_read ''null'' ''map'')"
| "data_map JUndefined = Inl (cannot_read ''undefined'' ''map'')"
| "data_map v = Inl ''data.map is not a function''"

text \<open>\<^verbatim>\<open>Math.ceil(count / limit)\<close>; a \<^verbatim>\<open>null\<close> count converts to \<open>0\<close>.  The quotient is
  taken in the reals: the handlers never reach it with a zero limit.\<close>

definition math_ceil_div :: "int option \<Rightarrow> int \<Rightarrow> int" where
  "math_ceil_div cnt lmt =
     \<lceil>real_of_int (case cnt of None \<Rightarrow> 0 | Some c \<Rightarrow> c) / real_of_int lmt\<rceil>"

definition make_page :: "jsval \<Rightarrow> int option \<Rightarrow> int \<Rightarrow> int \<Rightarrow> page_result" where
  "make_page d cnt pg lmt =
     \<lparr>rows = d,
      pagination = \<lparr>total = cnt, page = pg, limit = lmt, pages = math_ceil_div cnt lmt\<rparr>\<rparr>"

section \<open>The HTTP server\<close>

datatype payload = NoData | TablesData "table_ref list" | PageData page_result

record envelope =
  success :: bool
  data :: payload
  message :: "string option"
  timestamp :: string

record http_response =
  status :: nat
  body :: envelope

text \<open>\<^verbatim>\<open>formatResponse\<close>; its \<^verbatim>\<open>statusCode\<close> argument is not used by the source either.
  The clock reading is the parameter \<open>now\<close>.\<close>

definition formatResponse :: "string \<Rightarrow> bool \<Rightarrow> payload \<Rightarrow> string option \<Rightarrow> nat \<Rightarrow> envelope" where
  "formatResponse now ok d msg statusCode =
     \<lparr>success = ok, data = d, message = msg, timestamp = now\<rparr>"

definition server_error :: "string \<Rightarrow> exn \<Rightarrow> http_response" where
  "server_error now e = \<lparr>status = 500, body = formatResponse now False NoData (Some e) 500\<rparr>"


definition not_found_message :: "string \<Rightarrow> string" where
  "not_found_message tableName = ''Table '' @ [CHR 0x27] @ tableName @ [CHR 0x27] @ '' not found''"

text \<open>\<^verbatim>\<open>GET /api/data/:projectId/:tableName\<close>, with \<^verbatim>\<open>req.query.limit\<close> and
  \<^verbatim>\<open>req.query.page\<close> as the router delivers them.\<close>

definition api_data ::
  "client \<Rightarrow> string \<Rightarrow> string \<Rightarrow> string \<Rightarrow> jsval \<Rightarrow> jsval \<Rightarrow> query list \<times> http_response" where
  "api_data sb now projectId tableName rawLimit rawPage =
     (case normalize_pagination rawLimit rawPage of
        Inl e \<Rightarrow> ([], server_error now e)
      | Inr (lmt, pg, off) \<Rightarrow>
          (let q1 = exists_query (JStr tableName) in
           case sb q1 of
             Rejected e \<Rightarrow> ([q1], server_error now e)
           | Resolved tableCheck tableError c1 \<Rightarrow>
               if tableError \<noteq> None \<or> \<not> truthy tableCheck then
                 ([q1],
                  \<lparr>status = 404,
                   body = formatResponse now False NoData
                            (Some (not_found_message tableName)) 404\<rparr>)
               else
                 (let q2 = data_query (JStr tableName) off lmt in
                  ([q1, q2],
                   (case sb q2 of
                      Rejected e \<Rightarrow> server_error now e
                    | Resolved d err cnt \<Rightarrow>
                        (case err of
                           Some m \<Rightarrow> server_error now m
                         | None \<Rightarrow>
                             \<lparr>status = 200,
                              body = formatResponse now True
                                       (PageData (make_page d cnt pg lmt)) None 200\<rparr>))))))"

section \<open>The STDIO daemon\<close>

subsection \<open>Process state and the JSON-RPC library\<close>

text \<open>
  \<^verbatim>\<open>jsonrpc-lite\<close> is a dependency: its error constructors carry the fixed message and
  code of JSON-RPC 2.0 and the caller's data; \<^verbatim>\<open>jsonrpc.error\<close> and \<^verbatim>\<open>jsonrpc.success\<close>
  pair an id with an error or a result.  What \<^verbatim>\<open>jsonrpc.parse\<close> returns is an object with a
  \<^verbatim>\<open>type\<close> and a \<^verbatim>\<open>payload\<close>: \<open>Invalid\<close> is type \<^verbatim>\<open>'invalid'\<close> with its error payload,
  \<open>Request\<close> is type \<^verbatim>\<open>'request'\<close> with \<^verbatim>\<open>id\<close>, \<^verbatim>\<open>method\<close> and \<^verbatim>\<open>params\<close>, \<open>Other\<close> is
  any other type (a notification, a response, or a batch, which has no type).
\<close>

datatype jsonrpc_error = JsonRpcError string int jsval

fun error_message :: "jsonrpc_error \<Rightarrow> string" where
  "error_message (JsonRpcError m c d) = m"

definition parseError :: "jsval \<Rightarrow> jsonrpc_error" where
  "parseError d = JsonRpcError ''Parse error'' (- 32700) d"

definition invalidRequest :: "jsval \<Rightarrow> jsonrpc_error" where
  "invalidRequest d = JsonRpcError ''Invalid request'' (- 32600) d"

definition methodNotFound :: "jsval \<Rightarrow> jsonrpc_error" where
  "methodNotFound d = JsonRpcError ''Method not found'' (- 32601) d"

definition internalError :: "jsval \<Rightarrow> jsonrpc_error" where
  "internalError d = JsonRpcError ''Internal error'' (- 32603) d"

datatype parsed = Invalid jsonrpc_error | Request jsval string jsval | Other string

datatype result =
    ToolList jsval
  | Tables "table_ref list"
  | Page page_result
  | Inherited jsval

datatype rpc_response = ErrorObject jsval jsonrpc_error | SuccessObject jsval result

text \<open>
  The daemon's globals.  \<open>jsonrpc_parse\<close> is the library's \<^verbatim>\<open>parse\<close> (\<open>Inl\<close> when it
  throws).  \<open>proto_member\<close> stands for \<^verbatim>\<open>Object.prototype\<close>: \<^verbatim>\<open>methods[method]\<close> is a
  plain property read, so a name such as \<^verbatim>\<open>toString\<close> finds an inherited member; calling
  it throws or returns a value for the success object (\<open>Inherited\<close>).  \<open>supabase\<close> is \<open>None\<close> when the credentials are not set
  (line 25).  \<open>mcpConfig\<close> is whatever \<^verbatim>\<open>JSON.parse\<close> read from \<^verbatim>\<open>.mcp.json\<close>, or the initial
  object of line 8.
\<close>

record env =
  jsonrpc_parse :: "string \<Rightarrow> exn + parsed"
  proto_member :: "string \<Rightarrow> (jsval \<Rightarrow> exn + jsval) option"
  supabase :: "client option"
  mcpConfig :: jsval

definition initial_mcpConfig :: jsval where
  "initial_mcpConfig = JObj [(''org_id'', JStr []), (''project_id'', JStr [])]"

definition tools :: jsval where
  "tools = JArr
     [JObj [(''name'', JStr ''list_tables''),
            (''description'', JStr ''Lists all tables in the public schema''),
            (''parameters'', JObj
               [(''properties'', JObj
                   [(''project_id'', JObj [(''type'', JStr ''string''),
                                           (''description'', JStr ''Project ID'')])]),
                (''required'', JArr [JStr ''project_id'']),
                (''type'', JStr ''object'')])],
      JObj [(''name'', JStr ''get_table_data''),
            (''description'', JStr ''Fetches data from a specific table with pagination''),
            (''parameters'', JObj
               [(''properties'', JObj
                   [(''project_id'', JObj [(''type'', JStr ''string''),
                                           (''description'', JStr ''Project ID'')]),
                    (''table_name'', JObj [(''type'', JStr ''string''),
                       (''description'', JStr ''Name of the table to fetch data from'')]),
                    (''limit'', JObj [(''type'', JStr ''number''),
                       (''description'', JStr ''Number of rows to return (default: 10)'')]),
                    (''page'', JObj [(''type'', JStr ''number''),
                       (''description'', JStr ''Page number (default: 0)'')])]),
                (''required'', JArr [JStr ''project_id'', JStr ''table_name'']),
                (''type'', JStr ''object'')])]]"

subsection \<open>Method implementations\<close>

text \<open>\<^verbatim>\<open>params.project_id || mcpConfig.project_id\<close>: the configuration is read only when
  the parameter is falsy.\<close>

definition projectId_of :: "env \<Rightarrow> jsval \<Rightarrow> exn + jsval" where
  "projectId_of e params =
     (case get_prop params ''project_id'' of
        Inl x \<Rightarrow> Inl x
      | Inr v \<Rightarrow> if truthy v then Inr v else get_prop (mcpConfig e) ''project_id'')"

definition not_initialized :: exn where
  "not_initialized = ''Supabase client not initialized. Please set SUPABASE_URL and SUPABASE_ANON_KEY environment variables.''"

definition listing_error :: "exn \<Rightarrow> exn" where
  "listing_error m = ''Error listing tables: '' @ m"

text \<open>The two template literals of \<^verbatim>\<open>get_table_data\<close>, as the message of what ends up
  thrown: the Error built from the text, or the TypeError of the conversion.\<close>

definition table_not_found :: "jsval \<Rightarrow> exn" where
  "table_not_found table_name =
     (case template (''Table '' @ [CHR 0x27]) table_name ([CHR 0x27] @ '' not found'') of
        Inl te \<Rightarrow> te | Inr m \<Rightarrow> m)"

definition fetching_error :: "jsval \<Rightarrow> exn \<Rightarrow> exn" where
  "fetching_error table_name m =
     (case template ''Error fetching data from table '' table_name ('': '' @ m) of
        Inl te \<Rightarrow> te | Inr t \<Rightarrow> t)"

definition listTools :: "jsval \<Rightarrow> query list \<times> (exn + result)" where
  "listTools params = ([], Inr (ToolList tools))"

definition list_tables :: "env \<Rightarrow> jsval \<Rightarrow> query list \<times> (exn + result)" where
  "list_tables e params =
     (case projectId_of e params of
        Inl x \<Rightarrow> ([], Inl x)
      | Inr projectId \<Rightarrow>
          (case supabase e of
             None \<Rightarrow> ([], Inl not_initialized)
           | Some sb \<Rightarrow>
               ([tables_query],
                (case sb tables_query of
                   Rejected x \<Rightarrow> Inl (listing_error x)
                 | Resolved d err cnt \<Rightarrow>
                     (case err of
                        Some m \<Rightarrow> Inl (listing_error m)
                      | None \<Rightarrow>
                          (case data_map d of
                             Inl x \<Rightarrow> Inl (listing_error x)
                           | Inr ts \<Rightarrow> Inr (Tables ts)))))))"

text \<open>The \<^verbatim>\<open>try\<close> block of \<^verbatim>\<open>get_table_data\<close> with its \<^verbatim>\<open>catch\<close>: the existence check, then
  the ranged select; whatever is thrown inside leaves wrapped by \<open>fetching_error\<close>.\<close>

definition fetch_table :: "client \<Rightarrow> jsval \<Rightarrow> int \<Rightarrow> int \<Rightarrow> int \<Rightarrow> query list \<times> (exn + result)" where
  "fetch_table sb table_name lmt pg off =
     (let q1 = exists_query table_name in
      case sb q1 of
        Rejected x \<Rightarrow> ([q1], Inl (fetching_error table_name x))
      | Resolved tableCheck tableError c1 \<Rightarrow>
          if tableError \<noteq> None \<or> \<not> truthy tableCheck then
            ([q1], Inl (fetching_error table_name (table_not_found table_name)))
          else
            (let q2 = data_query table_name off lmt in
             ([q1, q2],
              (case sb q2 of
                 Rejected x \<Rightarrow> Inl (fetching_error table_name x)
               | Resolved d err cnt \<Rightarrow>
                   (case err of
                      Some m \<Rightarrow> Inl (fetching_error table_name m)
                    | None \<Rightarrow> Inr (Page (make_page d cnt pg lmt)))))))"

definition get_table_data :: "env \<Rightarrow> jsval \<Rightarrow> query list \<times> (exn + result)" where
  "get_table_data e params =
     (case get_prop params ''table_name'' of
        Inl x \<Rightarrow> ([], Inl x)
      | Inr table_name \<Rightarrow>
          (case projectId_of e params of
             Inl x \<Rightarrow> ([], Inl x)
           | Inr projectId \<Rightarrow>
               (case get_prop params ''limit'' of
                  Inl x \<Rightarrow> ([], Inl x)
                | Inr rawLimit \<Rightarrow>
                    (case get_prop params ''page'' of
                       Inl x \<Rightarrow> ([], Inl x)
                     | Inr rawPage \<Rightarrow>
                         (case normalize_pagination rawLimit rawPage of
                            Inl x \<Rightarrow> ([], Inl x)
                          | Inr (lmt, pg, off) \<Rightarrow>
                              (case supabase e of
                                 None \<Rightarrow> ([], Inl not_initialized)
                               | Some sb \<Rightarrow> fetch_table sb table_name lmt pg off))))))"

text \<open>\<^verbatim>\<open>methods[method]\<close>: the three own members, then the prototype.\<close>

definition methods :: "env \<Rightarrow> string \<Rightarrow> (jsval \<Rightarrow> query list \<times> (exn + result)) option" where
  "methods e m =
     (if m = ''listTools'' then Some listTools
      else if m = ''list_tables'' then Some (list_tables e)
      else if m = ''get_table_data'' then Some (get_table_data e)
      else (case proto_member e m of
              None \<Rightarrow> None
            | Some f \<Rightarrow>
                Some (\<lambda>params. ([], case f params of Inl x \<Rightarrow> Inl x | Inr v \<Rightarrow> Inr (Inherited v)))))"

subsection \<open>The dispatcher and the line reader\<close>

definition handleJsonRpc :: "env \<Rightarrow> string \<Rightarrow> query list \<times> rpc_response" where
  "handleJsonRpc e msg =
     (case jsonrpc_parse e msg of
        Inl x \<Rightarrow> ([], ErrorObject JNull (parseError (JStr x)))
      | Inr (Invalid pe) \<Rightarrow> ([], ErrorObject JNull (invalidRequest (JStr (error_message pe))))
      | Inr (Other ty) \<Rightarrow>
          ([], ErrorObject JNull (invalidRequest (JStr ''Expected a JSON-RPC request'')))
      | Inr (Request ident method params) \<Rightarrow>
          (case methods e method of
             None \<Rightarrow>
               ([], ErrorObject ident (methodNotFound
                  (JStr (''Method '' @ [CHR 0x27] @ method @ [CHR 0x27] @ '' not found''))))
           | Some f \<Rightarrow>
               (case f (if truthy params then params else JObj []) of
                  (qs, Inl x) \<Rightarrow> (qs, ErrorObject ident (internalError (JStr x)))
                | (qs, Inr r) \<Rightarrow> (qs, SuccessObject ident r))))"

text \<open>\<^verbatim>\<open>inputBuffer.split\<close> on the newline character: the pieces between newlines,
  never an empty list.\<close>

fun split_nl :: "string \<Rightarrow> string list" where
  "split_nl [] = [[]]"
| "split_nl (c # cs) =
     (if c = CHR 0x0A then [] # split_nl cs
      else (case split_nl cs of [] \<Rightarrow> [[c]] | l # ls \<Rightarrow> (c # l) # ls))"

definition trim :: "string \<Rightarrow> string" where
  "trim s = rev (dropWhile is_ws (rev (dropWhile is_ws s)))"

text \<open>
  The body of the \<^verbatim>\<open>for\<close> loop of the \<^verbatim>\<open>'data'\<close> listener over the complete lines, giving
  the responses written to standard output in order, one per line.  \<open>on_data\<close> is one run
  of the listener on the buffer and a chunk, to completion: it returns the new
  \<^verbatim>\<open>inputBuffer\<close> and what was written.  \<open>feed\<close> runs the listener on successive chunks, each
  run finishing before the next chunk arrives.  \<^verbatim>\<open>handleJsonRpc\<close> catches whatever its
  body throws, so the listener's own \<^verbatim>\<open>catch\<close> is not entered.
\<close>

fun process_lines :: "env \<Rightarrow> string list \<Rightarrow> rpc_response list" where
  "process_lines e [] = []"
| "process_lines e (l # ls) =
     (let line = trim l in
      (if line \<noteq> [] then [snd (handleJsonRpc e line)] else []) @ process_lines e ls)"

definition on_data :: "env \<Rightarrow> string \<Rightarrow> string \<Rightarrow> string \<times> rpc_response list" where
  "on_data e inputBuffer chunk =
     (let lines = split_nl (inputBuffer @ chunk)
      in (last lines, process_lines e (butlast lines)))"

fun feed :: "env \<Rightarrow> string \<Rightarrow> string list \<Rightarrow> string \<times> rpc_response list" where
  "feed e inputBuffer [] = (inputBuffer, [])"
| "feed e inputBuffer (chunk # chunks) =
     (case on_data e inputBuffer chunk of
        (buf, out) \<Rightarrow> (case feed e buf chunks of (buf', outs) \<Rightarrow> (buf', out @ outs)))"

subsection \<open>What the library's parser does with a line\<close>

text \<open>
  \<^verbatim>\<open>jsonrpc.parse\<close> of \<^verbatim>\<open>jsonrpc-lite\<close> does not throw on text that is not JSON: it calls
  \<^verbatim>\<open>JSON.parse\<close> inside its own \<^verbatim>\<open>try\<close> and reports the failure as an object of type
  \<^verbatim>\<open>'invalid'\<close> whose payload is \<^verbatim>\<open>JsonRpcError.parseError(message)\<close>; text that parses is
  classified by the library's \<^verbatim>\<open>parseObject\<close>.  The dispatcher relies on this shape when it
  reads \<^verbatim>\<open>parsed.type\<close> and \<^verbatim>\<open>parsed.payload.message\<close>.  \<^verbatim>\<open>JSON.parse\<close> (\<open>None\<close> when it
  throws a SyntaxError) and \<^verbatim>\<open>parseObject\<close> are parameters.
\<close>

definition jsonrpc_lite_parse ::
  "(string \<Rightarrow> jsval option) \<Rightarrow> (jsval \<Rightarrow> parsed) \<Rightarrow> string \<Rightarrow> exn + parsed" where
  "jsonrpc_lite_parse JSON_parse parseObject msg =
     (case JSON_parse msg of
        None \<Rightarrow> Inr (Invalid (parseError (JStr msg)))
      | Some obj \<Rightarrow> Inr (parseObject obj))"

section \<open>A reference backing service\<close>

text \<open>
  Modelled from the spec: the backing data client and the database behind it are external
  to the repository; the spec describes them as a capability that filters, orders and
  selects a row range with an exact total count.  \<open>db\<close> is a database: the rows of
  \<^verbatim>\<open>information_schema.tables\<close> as (schema, name) pairs, and the rows of each relation that
  can be selected from.  \<open>pg_client\<close> answers a query over it: the filters select rows
  (\<^verbatim>\<open>eq\<close>, \<^verbatim>\<open>neq\<close> on the text of a column), \<^verbatim>\<open>order\<close> sorts by the text of a column,
  ascending, an exact count is the number of selected rows, \<^verbatim>\<open>range(a, b)\<close> keeps the rows
  at positions \<open>a\<close> to \<open>b\<close> inclusive, and \<^verbatim>\<open>single()\<close> turns anything but exactly one row
  into an error.  Values the client interpolates into the request are converted to
  strings first.
\<close>

record db =
  catalog :: "(string \<times> string) list"
  relations :: "(string \<times> jsval list) list"

definition catalog_row :: "string \<times> string \<Rightarrow> jsval" where
  "catalog_row t = JObj [(''table_schema'', JStr (fst t)), (''table_name'', JStr (snd t))]"

definition relation_rows :: "db \<Rightarrow> string \<Rightarrow> jsval list option" where
  "relation_rows d rel =
     (if rel = ''information_schema.tables'' then Some (map catalog_row (catalog d))
      else map_of (relations d) rel)"

definition column_text :: "jsval \<Rightarrow> string \<Rightarrow> string" where
  "column_text row c =
     (case get_prop row c of
        Inl x \<Rightarrow> []
      | Inr v \<Rightarrow> (case js_ToString v of None \<Rightarrow> [] | Some s \<Rightarrow> s))"

fun filter_value :: "pg_filter \<Rightarrow> jsval" where
  "filter_value (Eq c v) = v"
| "filter_value (Neq c v) = v"

fun matches :: "jsval \<Rightarrow> pg_filter \<Rightarrow> bool" where
  "matches row (Eq c v) = (js_ToString v = Some (column_text row c))"
| "matches row (Neq c v) = (js_ToString v \<noteq> Some (column_text row c))"

fun project :: "string list \<Rightarrow> jsval \<Rightarrow> jsval" where
  "project cols (JObj kvs) =
     (if cols = [''*''] then JObj kvs else JObj (filter (\<lambda>kv. fst kv \<in> set cols) kvs))"
| "project cols v = v"

definition pg_client :: "db \<Rightarrow> client" where
  "pg_client d q =
     (case js_ToString (from_table q) of
        None \<Rightarrow> Rejected not_primitive
      | Some rel \<Rightarrow>
          if \<not> list_all (\<lambda>f. js_ToString (filter_value f) \<noteq> None) (filters q)
          then Rejected not_primitive
          else
            (case relation_rows d rel of
               None \<Rightarrow> Resolved JNull (Some (''relation '' @ rel @ '' does not exist'')) None
             | Some rs \<Rightarrow>
                 (let sel = filter (\<lambda>r. list_all (matches r) (filters q)) rs;
                      ord = (case order_column q of
                               None \<Rightarrow> sel
                             | Some c \<Rightarrow> sort_key (\<lambda>r. column_text r c) sel);
                      cnt = (if count_option q = Some ''exact''
                             then Some (int (length ord)) else None);
                      win = (case range_bounds q of
                               None \<Rightarrow> ord
                             | Some (a, b) \<Rightarrow> take (nat (b - a + 1)) (drop (nat a) ord));
                      out = map (project (select_columns q)) win
                  in if single_row q then
                       (case out of
                          [r] \<Rightarrow> Resolved r None cnt
                        | _ \<Rightarrow> Resolved JNull
                            (Some ''JSON object requested, multiple (or no) rows returned'') None)
                     else Resolved (JArr out) None cnt)))"

section \<open>Concrete runs\<close>

text \<open>
  Values for evaluating the handlers: a parser given by a finite table of lines and what
  \<^verbatim>\<open>jsonrpc.parse\<close> returns for them (any other line is reported invalid); the database of
  the spec's scenario, whose table \<^verbatim>\<open>users\<close> has 25 rows; and a daemon connected to it
  with the initial configuration.
\<close>

definition table_parser :: "(string \<times> parsed) list \<Rightarrow> string \<Rightarrow> exn + parsed" where
  "table_parser tbl msg =
     (case map_of tbl msg of
        None \<Rightarrow> Inr (Invalid (parseError (JStr msg)))
      | Some p \<Rightarrow> Inr p)"

definition users_db :: db where
  "users_db =
     \<lparr>catalog = [(''public'', ''users''), (''public'', ''pg_stat_statements''),
                 (''public'', ''accounts''), (''audit'', ''events'')],
      relations = [(''users'', map (\<lambda>i. JObj [(''id'', JNum (int i))]) [0..<25]),
                   (''accounts'', [])]\<rparr>"

definition demo_env :: env where
  "demo_env =
     \<lparr>jsonrpc_parse = table_parser
        [(''tools?'', Request (JNum 1) ''listTools'' JUndefined),
         (''tables p1'', Request (JNum 2) ''list_tables'' (JObj [(''project_id'', JStr ''p1'')])),
         (''tables p2'', Request (JNum 2) ''list_tables'' (JObj [(''project_id'', JStr ''p2'')])),
         (''ghosts'', Request (JNum 3) ''get_table_data''
            (JObj [(''project_id'', JStr ''p1''), (''table_name'', JStr ''ghosts'')]))],
      proto_member = (\<lambda>m. None),
      supabase = Some (pg_client users_db),
      mcpConfig = initial_mcpConfig\<rparr>"

section \<open>Properties of the pagination defaults\<close>

subsection \<open>Decimal rendering read back by \<^verbatim>\<open>parseInt\<close>\<close>










subsection \<open>Normalization\<close>

lemma or_default_nonzero: "d \<noteq> 0 \<Longrightarrow> or_default x d \<noteq> 0"
  by (simp add: or_default_def split: option.splits)

lemma normalize_limit_nonzero: "normalize_limit raw \<noteq> Inr 0"
  by (simp add: normalize_limit_def or_default_nonzero split: sum.splits)

lemma normalize_pagination_Inr:
  "normalize_pagination rawLimit rawPage = Inr (l, p, off) \<longleftrightarrow>
     normalize_limit rawLimit = Inr l \<and> normalize_page rawPage = Inr p \<and> off = p * l"
  by (auto simp: normalize_pagination_def split: sum.splits)





text \<open>
  C10: after normalization the limit is never zero: a raw limit whose conversion gives
  \<^verbatim>\<open>NaN\<close> or \<open>0\<close> becomes \<open>10\<close>, so no normalized request carries the limit \<open>0\<close> into
  \<^verbatim>\<open>Math.ceil(count / limit)\<close>.
\<close>

theorem limit_never_zero:
  "normalize_limit raw \<noteq> Inr 0
   \<and> normalize_pagination rawLimit rawPage \<noteq> Inr (0, pg, off)
   \<and> (parseInt raw = Inr None \<or> parseInt raw = Inr (Some 0) \<longrightarrow> normalize_limit raw = Inr 10)"
proof (intro conjI impI)
  show "normalize_limit raw \<noteq> Inr 0" by (rule normalize_limit_nonzero)
  show "normalize_pagination rawLimit rawPage \<noteq> Inr (0, pg, off)"
    using normalize_limit_nonzero [of rawLimit] by (simp add: normalize_pagination_Inr)
  assume "parseInt raw = Inr None \<or> parseInt raw = Inr (Some 0)"
  then show "normalize_limit raw = Inr 10"
    by (auto simp: normalize_limit_def or_default_def)
qed

theorem limit_never_zero_witness:
  "parseInt (JStr ''0'') = Inr (Some 0) \<and> normalize_limit (JStr ''0'') = Inr 10
   \<and> parseInt (JStr ''ten'') = Inr None \<and> normalize_limit (JStr ''ten'') = Inr 10"
proof -
  have a: "parseInt (JStr ''0'') = Inr (Some 0)" by code_simp
  have b: "parseInt (JStr ''ten'') = Inr None" by code_simp
  from a limit_never_zero [of "JStr ''0''"]
  have "normalize_limit (JStr ''0'') = Inr 10" by blast
  moreover from b limit_never_zero [of "JStr ''ten''"]
  have "normalize_limit (JStr ''ten'') = Inr 10" by blast
  ultimately show ?thesis using a b by simp
qed




section \<open>Properties of the line reader\<close>

lemma split_nl_nonempty: "split_nl s \<noteq> []"
  by (induction s) (auto split: list.splits)

lemma split_nl_append:
  "split_nl (xs @ ys) = butlast (split_nl xs) @ split_nl (last (split_nl xs) @ ys)"
proof (induction xs)
  case Nil
  show ?case by simp
next
  case (Cons c cs)
  show ?case
  proof (cases "c = CHR 0x0A")
    case True
    with Cons split_nl_nonempty [of cs] show ?thesis by simp
  next
    case False
    obtain l ls where sp: "split_nl cs = l # ls"
      using split_nl_nonempty [of cs] by (cases "split_nl cs") auto
    show ?thesis
    proof (cases ls)
      case Nil
      with sp Cons False show ?thesis by simp
    next
      case (Cons l' ls')
      with sp Cons.IH False show ?thesis by simp
    qed
  qed
qed

lemma last_split_nl_no_newline: "CHR 0x0A \<notin> set (last (split_nl s))"
  by (induction s) (auto split: list.splits simp: split_nl_nonempty)

lemma process_lines_append:
  "process_lines e (xs @ ys) = process_lines e xs @ process_lines e ys"
  by (induction xs) (simp_all add: Let_def)


lemma split_nl_no_newline: "CHR 0x0A \<notin> set s \<Longrightarrow> split_nl s = [s]"
  by (induction s) auto

lemma feed_from_fragment:
  "CHR 0x0A \<notin> set buf \<Longrightarrow>
   feed e buf chunks =
     (last (split_nl (buf @ concat chunks)),
      process_lines e (butlast (split_nl (buf @ concat chunks))))"
proof (induction chunks arbitrary: buf)
  case Nil
  then show ?case by (simp add: split_nl_no_newline)
next
  case (Cons c cs)
  let ?b = "last (split_nl (buf @ c))"
  have sp: "split_nl (buf @ c @ concat cs) = butlast (split_nl (buf @ c)) @ split_nl (?b @ concat cs)"
    using split_nl_append [of "buf @ c" "concat cs"] by simp
  have ne: "split_nl (?b @ concat cs) \<noteq> []" by (rule split_nl_nonempty)
  have nb: "CHR 0x0A \<notin> set ?b" by (rule last_split_nl_no_newline)
  show ?case
    by (simp add: on_data_def Let_def Cons.IH [OF nb] sp ne butlast_append process_lines_append)
qed

section \<open>Replies of the reference backing service\<close>

lemma column_text_catalog_row:
  "column_text (catalog_row t) ''table_schema'' = fst t"
  "column_text (catalog_row t) ''table_name'' = snd t"
  by (simp_all add: column_text_def catalog_row_def)



lemma project_catalog_row_comp:
  "project [''table_schema'', ''table_name''] \<circ> catalog_row = catalog_row"
  "project [''table_name''] \<circ> catalog_row = (\<lambda>t. JObj [(''table_name'', JStr (snd t))])"
  by (simp_all add: fun_eq_iff catalog_row_def)



lemma exists_query_fields:
  "from_table (exists_query v) = JStr ''information_schema.tables''"
  "select_columns (exists_query v) = [''table_name'']"
  "count_option (exists_query v) = None"
  "filters (exists_query v) = [Eq ''table_schema'' (JStr ''public''), Eq ''table_name'' v]"
  "order_column (exists_query v) = None"
  "range_bounds (exists_query v) = None"
  "single_row (exists_query v) = True"
  by (simp_all add: exists_query_def)

lemma data_query_fields:
  "from_table (data_query v off l) = v"
  "select_columns (data_query v off l) = [''*'']"
  "count_option (data_query v off l) = Some ''exact''"
  "filters (data_query v off l) = []"
  "order_column (data_query v off l) = None"
  "range_bounds (data_query v off l) = Some (off, off + l - 1)"
  "single_row (data_query v off l) = False"
  by (simp_all add: data_query_def)

lemma pg_client_exists:
  "pg_client d (exists_query (JStr tn)) =
     (case filter (\<lambda>t. fst t = ''public'' \<and> snd t = tn) (catalog d) of
        [t] \<Rightarrow> Resolved (JObj [(''table_name'', JStr tn)]) None None
      | _ \<Rightarrow> Resolved JNull (Some ''JSON object requested, multiple (or no) rows returned'') None)"
proof -
  let ?sel = "filter (\<lambda>t. fst t = ''public'' \<and> snd t = tn) (catalog d)"
  have c: "filter (\<lambda>t. ''public'' = fst t \<and> tn = snd t) (catalog d) = ?sel"
    by (rule filter_cong) auto
  have step: "pg_client d (exists_query (JStr tn)) =
     (case map (\<lambda>t. JObj [(''table_name'', JStr (snd t))]) ?sel of
        [r] \<Rightarrow> Resolved r None None
      | _ \<Rightarrow> Resolved JNull (Some ''JSON object requested, multiple (or no) rows returned'') None)"
    by (simp add: pg_client_def Let_def exists_query_fields relation_rows_def filter_map
        comp_def column_text_catalog_row project_catalog_row_comp [unfolded comp_def] c)
  show ?thesis
  proof (cases ?sel)
    case Nil
    with step show ?thesis by simp
  next
    case (Cons t ts)
    then have "t \<in> set ?sel" by simp
    then have "snd t = tn" by simp
    with step Cons show ?thesis by (cases ts) simp_all
  qed
qed


lemma pg_client_exists_unique:
  "filter (\<lambda>t. t = (''public'', tn)) (catalog d) = [(''public'', tn)] \<Longrightarrow>
   pg_client d (exists_query (JStr tn)) = Resolved (JObj [(''table_name'', JStr tn)]) None None"
proof -
  assume a: "filter (\<lambda>t. t = (''public'', tn)) (catalog d) = [(''public'', tn)]"
  have "filter (\<lambda>t. fst t = ''public'' \<and> snd t = tn) (catalog d) = filter (\<lambda>t. t = (''public'', tn)) (catalog d)"
    by (rule filter_cong) auto
  with a show ?thesis by (simp add: pg_client_exists)
qed

lemma pg_client_data:
  "relation_rows d tn = Some rs \<Longrightarrow>
   pg_client d (data_query (JStr tn) off l) =
     Resolved (JArr (map (project [''*'']) (take (nat l) (drop (nat off) rs)))) None
       (Some (int (length rs)))"
  by (simp add: pg_client_def Let_def data_query_fields)


section \<open>Properties of the handlers\<close>

subsection \<open>Listing tables\<close>




lemma users_db_facts:
  "filter (\<lambda>t. t = (''public'', ''users'')) (catalog users_db) = [(''public'', ''users'')]"
  "relation_rows users_db ''users'' = Some (map (\<lambda>i. JObj [(''id'', JNum (int i))]) [0..<25])"
  "(''public'', ''ghosts'') \<notin> set (catalog users_db)"
  by (simp_all add: users_db_def relation_rows_def)



subsection \<open>Fetching a page\<close>

lemma api_data_pg_present:
  assumes n: "normalize_pagination rawLimit rawPage = Inr (l, p, off)"
    and ex: "filter (\<lambda>t. t = (''public'', tn)) (catalog d) = [(''public'', tn)]"
    and rel: "relation_rows d tn = Some rs"
  shows "api_data (pg_client d) now projectId tn rawLimit rawPage =
     ([exists_query (JStr tn), data_query (JStr tn) off l],
      \<lparr>status = 200,
       body = formatResponse now True
         (PageData (make_page (JArr (map (project [''*'']) (take (nat l) (drop (nat off) rs))))
            (Some (int (length rs))) p l)) None 200\<rparr>)"
  by (simp add: api_data_def n pg_client_exists_unique [OF ex] pg_client_data [OF rel] Let_def)






lemma ceil_div_int:
  fixes t l :: int
  assumes l: "0 < l"
  shows "- ((- t) div l) = (t + l - 1) div l"
proof -
  define k where "k = (- t) div l"
  define r where "r = (- t) mod l"
  have r: "0 \<le> r" "r < l" using l by (simp_all add: r_def)
  have "- t = k * l + r" by (simp add: k_def r_def)
  then have "t + l - 1 = (l - 1 - r) + (- k) * l" by (simp add: algebra_simps)
  then have "(t + l - 1) div l = ((l - 1 - r) + (- k) * l) div l" by (simp only:)
  also have "\<dots> = (l - 1 - r) div l + (- k)" using l by (simp only: div_mult_self1 [of l] ) 
  also have "(l - 1 - r) div l = 0" using r by (simp add: div_pos_pos_trivial)
  finally show ?thesis by (simp add: k_def)
qed

lemma math_ceil_div_pos: "0 < l \<Longrightarrow> math_ceil_div (Some t) l = (t + l - 1) div l"
  by (simp add: math_ceil_div_def ceiling_divide_eq_div ceil_div_int)

lemma api_data_page:
  "data (body (snd (api_data sb now projectId tn rawLimit rawPage))) = PageData r \<Longrightarrow>
   \<exists>d cnt l p off. normalize_pagination rawLimit rawPage = Inr (l, p, off) \<and> r = make_page d cnt p l"
  by (auto simp: api_data_def server_error_def formatResponse_def Let_def
      split: sum.splits reply.splits if_splits option.splits prod.splits)

lemma fetch_table_page:
  "snd (fetch_table sb tn l p off) = Inr (Page r) \<Longrightarrow> \<exists>d cnt. r = make_page d cnt p l"
  by (auto simp: fetch_table_def Let_def split: reply.splits if_splits option.splits)

lemma get_table_data_fetch:
  "snd (get_table_data e params) = Inr res \<Longrightarrow>
   \<exists>sb tn rawLimit rawPage l p off.
      normalize_pagination rawLimit rawPage = Inr (l, p, off) \<and> snd (fetch_table sb tn l p off) = Inr res"
proof -
  assume a: "snd (get_table_data e params) = Inr res"
  then obtain tn where 1: "get_prop params ''table_name'' = Inr tn"
    by (cases "get_prop params ''table_name''") (simp_all add: get_table_data_def)
  from a 1 obtain v where 2: "projectId_of e params = Inr v"
    by (cases "projectId_of e params") (simp_all add: get_table_data_def)
  from a 1 2 obtain rl where 3: "get_prop params ''limit'' = Inr rl"
    by (cases "get_prop params ''limit''") (simp_all add: get_table_data_def)
  from a 1 2 3 obtain rp where 4: "get_prop params ''page'' = Inr rp"
    by (cases "get_prop params ''page''") (simp_all add: get_table_data_def)
  from a 1 2 3 4 obtain l p off where 5: "normalize_pagination rl rp = Inr (l, p, off)"
    by (cases "normalize_pagination rl rp") (auto simp: get_table_data_def)
  from a 1 2 3 4 5 obtain sb where 6: "supabase e = Some sb"
    by (cases "supabase e") (simp_all add: get_table_data_def)
  from a 1 2 3 4 5 6 have "snd (fetch_table sb tn l p off) = Inr res"
    by (simp add: get_table_data_def)
  with 5 show ?thesis by blast
qed

lemma make_page_fields:
  "limit (pagination (make_page d cnt p l)) = l"
  "page (pagination (make_page d cnt p l)) = p"
  "pagination.total (pagination (make_page d cnt p l)) = cnt"
  "pages (pagination (make_page d cnt p l)) = math_ceil_div cnt l"
  "rows (make_page d cnt p l) = d"
  by (simp_all add: make_page_def)

lemma page_result_shape:
  assumes "data (body (snd (api_data sb now projectId tn rawLimit rawPage))) = PageData r
           \<or> snd (get_table_data e params) = Inr (Page r)"
  shows "\<exists>d cnt l p. l \<noteq> 0 \<and> r = make_page d cnt p l"
proof -
  from assms obtain d cnt l p off rl rp
    where n: "normalize_pagination rl rp = Inr (l, p, off)" and r: "r = make_page d cnt p l"
    using api_data_page get_table_data_fetch fetch_table_page by metis
  from n have "l \<noteq> 0" using normalize_limit_nonzero [of rl] by (auto simp: normalize_pagination_Inr)
  with r show ?thesis by blast
qed

text \<open>
  C6: in every successful page result of either transport, the limit is not zero and
  \<open>pages\<close> is the ceiling of \<open>total / limit\<close>; it is \<open>0\<close> when \<open>total = 0\<close>, and for a
  positive limit it is \<open>(total + limit - 1) div limit\<close>.
\<close>

theorem pages_is_ceiling:
  assumes "data (body (snd (api_data sb now projectId tn rawLimit rawPage))) = PageData r
           \<or> snd (get_table_data e params) = Inr (Page r)"
    and "pagination.total (pagination r) = Some t"
  shows "limit (pagination r) \<noteq> 0
    \<and> pages (pagination r) = \<lceil>real_of_int t / real_of_int (limit (pagination r))\<rceil>
    \<and> (t = 0 \<longrightarrow> pages (pagination r) = 0)
    \<and> (0 < limit (pagination r) \<longrightarrow>
          pages (pagination r) = (t + limit (pagination r) - 1) div limit (pagination r))"
proof -
  from page_result_shape [OF assms(1)] obtain d cnt l p
    where l: "l \<noteq> 0" and r: "r = make_page d cnt p l" by blast
  from assms(2) r have cnt: "cnt = Some t" by (simp add: make_page_fields)
  show ?thesis
    using l math_ceil_div_pos [of l t]
    by (simp add: r cnt make_page_fields) (simp add: math_ceil_div_def)
qed

theorem pages_is_ceiling_witness:
  "\<exists>r. data (body (snd (api_data (pg_client users_db) ''now'' ''p1'' ''users''
            (JStr ''10'') (JStr ''2'')))) = PageData r
      \<and> pagination.total (pagination r) = Some 25
      \<and> limit (pagination r) = 10
      \<and> pages (pagination r) = 3"
proof -
  have n: "normalize_pagination (JStr ''10'') (JStr ''2'') = Inr (10, 2, 20)" by code_simp
  define r where "r = make_page (JArr (map (project [''*''])
      (take (nat 10) (drop (nat 20) (map (\<lambda>i. JObj [(''id'', JNum (int i))]) [0..<25])))))
      (Some (int (length (map (\<lambda>i. JObj [(''id'', JNum (int i))]) [0..<25])))) 2 10"
  have d: "data (body (snd (api_data (pg_client users_db) ''now'' ''p1'' ''users''
            (JStr ''10'') (JStr ''2'')))) = PageData r"
    by (simp add: api_data_pg_present [OF n users_db_facts(1) users_db_facts(2)]
        formatResponse_def r_def)
  have t: "pagination.total (pagination r) = Some 25" by (simp add: r_def make_page_fields)
  have l: "limit (pagination r) = 10" by (simp add: r_def make_page_fields)
  from pages_is_ceiling [OF disjI1 [OF d] t] l have "pages (pagination r) = 3" by simp
  with d t l show ?thesis by blast
qed

subsection \<open>The existence check\<close>

lemma api_data_check_failed:
  assumes "normalize_pagination rawLimit rawPage = Inr n"
    and "sb (exists_query (JStr tn)) = Resolved tableCheck tableError c"
    and "tableError \<noteq> None \<or> \<not> truthy tableCheck"
  shows "api_data sb now projectId tn rawLimit rawPage =
     ([exists_query (JStr tn)],
      \<lparr>status = 404,
       body = \<lparr>success = False, data = NoData, message = Some (not_found_message tn),
               timestamp = now\<rparr>\<rparr>)"
  using assms by (cases n) (auto simp: api_data_def Let_def formatResponse_def)

lemma api_data_check_rejected:
  assumes "normalize_pagination rawLimit rawPage = Inr n"
    and "sb (exists_query (JStr tn)) = Rejected x"
  shows "api_data sb now projectId tn rawLimit rawPage =
     ([exists_query (JStr tn)],
      \<lparr>status = 500,
       body = \<lparr>success = False, data = NoData, message = Some x, timestamp = now\<rparr>\<rparr>)"
  using assms by (cases n) (auto simp: api_data_def Let_def formatResponse_def server_error_def)

lemma fetch_table_check_failed:
  assumes "sb (exists_query tn) = Resolved tableCheck tableError c"
    and "tableError \<noteq> None \<or> \<not> truthy tableCheck"
  shows "fetch_table sb tn l p off =
     ([exists_query tn], Inl (fetching_error tn (table_not_found tn)))"
  using assms by (auto simp: fetch_table_def Let_def)

lemma fetch_table_check_rejected:
  assumes "sb (exists_query tn) = Rejected x"
  shows "fetch_table sb tn l p off = ([exists_query tn], Inl (fetching_error tn x))"
  using assms by (simp add: fetch_table_def Let_def)





text \<open>
  C2, as stated, fails: the client reports a failed request in the \<^verbatim>\<open>error\<close> field of what
  it resolves with, and the server's guard \<^verbatim>\<open>tableError || !tableCheck\<close> answers every such
  reply with 404, a transport failure like an absent table.
\<close>

theorem transport_error_reported_not_found:
  "status (snd (api_data (\<lambda>q. Resolved JNull (Some ''TypeError: fetch failed'') None)
      ''2025-01-01T00:00:00.000Z'' ''p1'' ''users'' JUndefined JUndefined)) = 404"
  by code_simp

text \<open>
  C2, amended: in the table-existence check, a metadata query that resolves with an error
  or without a row is answered 404 with the not-found message, whatever the cause of the
  error; only a metadata query that rejects (throws) is answered 500, with the thrown
  message.  In the daemon both leave \<^verbatim>\<open>get_table_data\<close> as a thrown error, wrapped by the
  same \<^verbatim>\<open>catch\<close>, and differ in the message alone.
\<close>

theorem existence_check_mapping:
  assumes n: "normalize_pagination rawLimit rawPage = Inr n"
  shows "(sb (exists_query (JStr tn)) = Resolved tableCheck tableError c
          \<and> (tableError \<noteq> None \<or> \<not> truthy tableCheck) \<longrightarrow>
            status (snd (api_data sb now projectId tn rawLimit rawPage)) = 404
            \<and> message (body (snd (api_data sb now projectId tn rawLimit rawPage)))
                = Some (not_found_message tn)
            \<and> snd (fetch_table sb (JStr tn) l p off)
                = Inl (fetching_error (JStr tn) (table_not_found (JStr tn))))
      \<and> (sb (exists_query (JStr tn)) = Rejected x \<longrightarrow>
            status (snd (api_data sb now projectId tn rawLimit rawPage)) = 500
            \<and> message (body (snd (api_data sb now projectId tn rawLimit rawPage))) = Some x
            \<and> snd (fetch_table sb (JStr tn) l p off) = Inl (fetching_error (JStr tn) x))"
proof (intro conjI impI)
  assume a: "sb (exists_query (JStr tn)) = Resolved tableCheck tableError c
          \<and> (tableError \<noteq> None \<or> \<not> truthy tableCheck)"
  then have r: "sb (exists_query (JStr tn)) = Resolved tableCheck tableError c"
    and f: "tableError \<noteq> None \<or> \<not> truthy tableCheck" by simp_all
  show "status (snd (api_data sb now projectId tn rawLimit rawPage)) = 404"
    by (simp add: api_data_check_failed [where sb = sb, OF n r f])
  show "message (body (snd (api_data sb now projectId tn rawLimit rawPage)))
                = Some (not_found_message tn)"
    by (simp add: api_data_check_failed [where sb = sb, OF n r f])
  show "snd (fetch_table sb (JStr tn) l p off)
                = Inl (fetching_error (JStr tn) (table_not_found (JStr tn)))"
    by (simp add: fetch_table_check_failed [where sb = sb, OF r f])
next
  assume r: "sb (exists_query (JStr tn)) = Rejected x"
  show "status (snd (api_data sb now projectId tn rawLimit rawPage)) = 500"
    by (simp add: api_data_check_rejected [where sb = sb, OF n r])
  show "message (body (snd (api_data sb now projectId tn rawLimit rawPage))) = Some x"
    by (simp add: api_data_check_rejected [where sb = sb, OF n r])
  show "snd (fetch_table sb (JStr tn) l p off) = Inl (fetching_error (JStr tn) x)"
    by (simp add: fetch_table_check_rejected [where sb = sb, OF r])
qed

theorem existence_check_mapping_witness:
  "normalize_pagination JUndefined JUndefined = Inr (10, 0, 0)
   \<and> status (snd (api_data (\<lambda>q. Resolved JNull (Some ''permission denied'') None)
        ''now'' ''p1'' ''users'' JUndefined JUndefined)) = 404
   \<and> status (snd (api_data (\<lambda>q. Rejected ''socket hang up'')
        ''now'' ''p1'' ''users'' JUndefined JUndefined)) = 500"
proof -
  have n: "normalize_pagination JUndefined JUndefined = Inr (10, 0, 0)" by code_simp
  have a: "status (snd (api_data (\<lambda>q. Resolved JNull (Some ''permission denied'') None)
        ''now'' ''p1'' ''users'' JUndefined JUndefined)) = 404"
    using existence_check_mapping [OF n, where sb = "\<lambda>q. Resolved JNull (Some ''permission denied'') None"
        and tn = "''users''" and tableCheck = JNull and tableError = "Some ''permission denied''"
        and c = None]
    by simp
  have b: "status (snd (api_data (\<lambda>q. Rejected ''socket hang up'')
        ''now'' ''p1'' ''users'' JUndefined JUndefined)) = 500"
    using existence_check_mapping [OF n, where sb = "\<lambda>q. Rejected ''socket hang up''"
        and tn = "''users''" and x = "''socket hang up''"]
    by simp
  from n a b show ?thesis by simp
qed

subsection \<open>The project identifier\<close>





text \<open>
  The hypothesis on the configuration is needed: a \<^verbatim>\<open>.mcp.json\<close> holding the JSON value
  \<^verbatim>\<open>null\<close> makes the read of \<^verbatim>\<open>mcpConfig.project_id\<close> throw, and the read happens only for
  a falsy \<^verbatim>\<open>project_id\<close>.
\<close>

lemma null_config_project_id:
  "projectId_of (e\<lparr>mcpConfig := JNull\<rparr>) (JObj [(''project_id'', JStr ''p1'')]) = Inr (JStr ''p1'')"
  "projectId_of (e\<lparr>mcpConfig := JNull\<rparr>) (JObj [(''project_id'', JStr [])])
     = Inl (cannot_read ''null'' ''project_id'')"
  by (simp_all add: projectId_of_def)

subsection \<open>Lines and parse failures\<close>

lemma split_nl_line:
  "CHR 0x0A \<notin> set l \<Longrightarrow> split_nl (l @ CHR 0x0A # rest) = l # split_nl rest"
  by (induction l) auto




text \<open>
  C3: what the dispatcher does with a complete line that is not valid JSON.  The
  library's parser reports such a line as an \<^verbatim>\<open>'invalid'\<close> object instead of throwing, so
  the branch for \<^verbatim>\<open>parsed.type === 'invalid'\<close> answers it: the response has a null id, but
  it is an \<^verbatim>\<open>InvalidRequest\<close> error (code \<open>-32600\<close>) whose data is the text
  \<^verbatim>\<open>Parse error\<close>, not a \<^verbatim>\<open>ParseError\<close> (code \<open>-32700\<close>), which only the \<^verbatim>\<open>catch\<close> of
  \<^verbatim>\<open>handleJsonRpc\<close> produces.  The read loop goes on: a valid line after the invalid one is
  processed and answered.
\<close>

theorem unparseable_line_invalid_request:
  assumes lib: "jsonrpc_parse e = jsonrpc_lite_parse JSON_parse parseObject"
    and bad: "JSON_parse (trim bad) = None" "trim bad \<noteq> []" "CHR 0x0A \<notin> set bad"
    and good: "trim good \<noteq> []" "CHR 0x0A \<notin> set good"
  shows "handleJsonRpc e (trim bad) =
           ([], ErrorObject JNull (JsonRpcError ''Invalid request'' (- 32600) (JStr ''Parse error'')))
    \<and> snd (handleJsonRpc e (trim bad)) \<noteq> ErrorObject JNull (parseError d)
    \<and> feed e [] [bad @ [CHR 0x0A] @ good @ [CHR 0x0A]] =
           ([], [ErrorObject JNull (JsonRpcError ''Invalid request'' (- 32600) (JStr ''Parse error'')),
                 snd (handleJsonRpc e (trim good))])"
proof -
  have h: "handleJsonRpc e (trim bad) =
           ([], ErrorObject JNull (JsonRpcError ''Invalid request'' (- 32600) (JStr ''Parse error'')))"
    by (simp add: handleJsonRpc_def lib jsonrpc_lite_parse_def bad(1) parseError_def invalidRequest_def)
  have s: "split_nl (bad @ CHR 0x0A # good @ [CHR 0x0A]) = [bad, good, []]"
    using bad(3) good(2) by (simp add: split_nl_line)
  have "feed e [] [bad @ [CHR 0x0A] @ good @ [CHR 0x0A]] =
      ([], process_lines e [bad, good])"
    using feed_from_fragment [of "[]" e "[bad @ [CHR 0x0A] @ good @ [CHR 0x0A]]"] s by simp
  with h bad(2) good(1) show ?thesis by (simp add: Let_def parseError_def)
qed

theorem unparseable_line_invalid_request_witness:
  "feed (demo_env\<lparr>jsonrpc_parse :=
          jsonrpc_lite_parse (\<lambda>s. if s = ''1'' then Some (JNum 1) else None)
            (\<lambda>obj. Other ''none'')\<rparr>) []
      [''{not json'' @ [CHR 0x0A] @ ''1'' @ [CHR 0x0A]]
     = ([], [ErrorObject JNull (JsonRpcError ''Invalid request'' (- 32600) (JStr ''Parse error'')),
             ErrorObject JNull (JsonRpcError ''Invalid request'' (- 32600)
                (JStr ''Expected a JSON-RPC request''))])"
proof -
  let ?J = "\<lambda>s. if s = ''1'' then Some (JNum 1) else None"
  let ?e = "demo_env\<lparr>jsonrpc_parse := jsonrpc_lite_parse ?J (\<lambda>obj. Other ''none'')\<rparr>"
  have t: "trim ''{not json'' = ''{not json''" "trim ''1'' = ''1''"
    by (simp_all add: trim_def is_ws_def)
  have g: "snd (handleJsonRpc ?e ''1'') = ErrorObject JNull (JsonRpcError ''Invalid request'' (- 32600)
                (JStr ''Expected a JSON-RPC request''))"
    by (simp add: handleJsonRpc_def jsonrpc_lite_parse_def invalidRequest_def)
  have "feed ?e [] [''{not json'' @ [CHR 0x0A] @ ''1'' @ [CHR 0x0A]] =
           ([], [ErrorObject JNull (JsonRpcError ''Invalid request'' (- 32600) (JStr ''Parse error'')),
                 snd (handleJsonRpc ?e (trim ''1''))])"
    using unparseable_line_invalid_request [of ?e ?J "\<lambda>obj. Other ''none''" "''{not json''" "''1''"]
    by (simp add: t)
  then show ?thesis by (simp only: t g)
qed

end
